theory Spec2Isabelle
  imports Main "HOL-Library.Word"
begin

section \<open>Values shared with the collaborators\<close>

text \<open>
  The hub (\<^verbatim>\<open>transport/internet/websocket/hub.go\<close>) sits between Go's \<^verbatim>\<open>net/http\<close>
  server, the WebSocket framing library and the consumer of accepted connections.
  A Go \<^verbatim>\<open>error\<close> value is represented by its message; \<^verbatim>\<open>nil\<close> is \<open>None\<close>.
\<close>

type_synonym bytes = string
type_synonym error = string
type_synonym net_IP = "8 word list"
type_synonym net_Port = "16 word"
type_synonym ref = nat

text \<open>
  \<^verbatim>\<open>net.TCPAddr\<close> is a struct that the hub reaches through a pointer and updates in
  place, so address objects live in a store. A pointer without an object in the store is
  a nil pointer.
\<close>

record TCPAddr =
  IP :: net_IP
  Port :: int
  Zone :: string

type_synonym store = "ref \<rightharpoonup> TCPAddr"

text \<open>
  A value of the interface \<^verbatim>\<open>net.Addr\<close>: the nil interface, a \<^verbatim>\<open>*net.TCPAddr\<close>, or
  a pointer to any other implementation (a \<^verbatim>\<open>*net.UnixAddr\<close>, say), of which only the
  printed form is kept.
\<close>

datatype Addr = NilAddr | TCPAddrPtr ref | OtherAddr string

text \<open>
  Modelled from the spec: the type \<^verbatim>\<open>Address\<close> of package \<^verbatim>\<open>common/net\<close>, which is
  not among the sources. An address is an IP address or a domain name;
  \<^verbatim>\<open>Family().IsIP()\<close> tells the two apart and \<^verbatim>\<open>IP()\<close> gives the IP of the former.
  A domain address has no IP to give, so \<^verbatim>\<open>IP()\<close> has no result there.
\<close>

datatype Address = IPAddress net_IP | DomainAddress string

fun IsIP :: "Address \<Rightarrow> bool" where
  "IsIP (IPAddress _) = True"
| "IsIP (DomainAddress _) = False"

fun Address_IP :: "Address \<Rightarrow> net_IP option" where
  "Address_IP (IPAddress ip) = Some ip"
| "Address_IP (DomainAddress _) = None"

subsection \<open>Errors and the log\<close>

text \<open>
  \<^verbatim>\<open>newError(values...)\<close> builds an error from the values of its message, \<^verbatim>\<open>Base\<close>
  attaches the cause, \<^verbatim>\<open>AtWarning\<close> raises the severity and \<^verbatim>\<open>WriteToLog\<close> appends
  the error to the log, with the session id exported from the context when one is given.
\<close>

datatype Severity = Info | Warning

datatype msg_part = Text string | AddressArg Address | PortArg net_Port

record V2Error =
  message :: "msg_part list"
  base :: "error option"
  severity :: Severity

type_synonym Log = "(V2Error \<times> nat option) list"

definition newError :: "msg_part list \<Rightarrow> V2Error" where
  "newError parts = \<lparr>message = parts, base = None, severity = Info\<rparr>"

definition Base :: "error \<Rightarrow> V2Error \<Rightarrow> V2Error" where
  "Base err e = e\<lparr>base := Some err\<rparr>"

definition AtWarning :: "V2Error \<Rightarrow> V2Error" where
  "AtWarning e = e\<lparr>severity := Warning\<rparr>"

definition WriteToLog :: "nat option \<Rightarrow> V2Error \<Rightarrow> Log \<Rightarrow> Log" where
  "WriteToLog sid e lg = lg @ [(e, sid)]"

subsection \<open>The response writer of \<^verbatim>\<open>net/http\<close>\<close>

text \<open>
  \<^verbatim>\<open>http.ResponseWriter\<close> by its contract: \<^verbatim>\<open>Header().Set\<close> replaces the values of a
  key in the header map; \<^verbatim>\<open>WriteHeader\<close> sends the status line with the header map as
  it is at that moment, once (later calls and later header changes do not reach the
  peer); \<^verbatim>\<open>Write\<close> sends the status 200 first when none was sent, then the bytes.
  \<open>rw_body\<close> holds the bytes handed to \<^verbatim>\<open>Write\<close>, in order. A sink that cannot
  deliver them (\<open>rw_broken\<close>) makes \<^verbatim>\<open>Write\<close> return its error.
\<close>

record ResponseWriter =
  rw_header :: "string \<rightharpoonup> string list"
  rw_sent :: "(int \<times> (string \<rightharpoonup> string list)) option"
  rw_body :: bytes
  rw_broken :: "error option"

definition newResponseWriter :: "error option \<Rightarrow> ResponseWriter" where
  "newResponseWriter broken =
     \<lparr>rw_header = Map.empty, rw_sent = None, rw_body = [], rw_broken = broken\<rparr>"

definition Header_Set :: "string \<Rightarrow> string \<Rightarrow> ResponseWriter \<Rightarrow> ResponseWriter" where
  "Header_Set k v w = w\<lparr>rw_header := (rw_header w)(k \<mapsto> [v])\<rparr>"

definition WriteHeader :: "int \<Rightarrow> ResponseWriter \<Rightarrow> ResponseWriter" where
  "WriteHeader code w =
     (case rw_sent w of
        None \<Rightarrow> w\<lparr>rw_sent := Some (code, rw_header w)\<rparr>
      | Some _ \<Rightarrow> w)"

definition Write :: "bytes \<Rightarrow> ResponseWriter \<Rightarrow> error option \<times> ResponseWriter" where
  "Write bs w =
     (let w1 = WriteHeader 200 w
      in (rw_broken w1, w1\<lparr>rw_body := rw_body w1 @ bs\<rparr>))"

definition StatusForbidden :: int where
  "StatusForbidden = 403"

definition StatusNotFound :: int where
  "StatusNotFound = 404"

text \<open>What a handler of this file writes to: the response writer and the log.\<close>

record Output =
  writer :: ResponseWriter
  logs :: Log

section \<open>The camouflage responses\<close>

definition forbiddenContent :: bytes where
  "forbiddenContent =
     ''<html>\<newline><head><title>403 Forbidden</title></head>\<newline><body>\<newline><center><h1>403 Forbidden</h1></center>\<newline><hr><center>nginx</center>\<newline></body>\<newline></html>''"

definition notFoundContent :: bytes where
  "notFoundContent =
     ''<html>\<newline><head><title>404 Not Found</title></head>\<newline><body>\<newline><center><h1>404 Not Found</h1></center>\<newline><hr><center>nginx</center>\<newline></body>\<newline></html>''"

definition forbiddenHandler :: "Output \<Rightarrow> Output" where
  "forbiddenHandler out =
     (let w1 = Header_Set ''Server'' ''nginx'' (writer out);
          w2 = Header_Set ''Content-Type'' ''text/html'' w1;
          w3 = WriteHeader StatusForbidden w2;
          (err, w4) = Write forbiddenContent w3
      in case err of
           Some e \<Rightarrow>
             \<lparr>writer = w4,
              logs = WriteToLog None
                       (Base e (newError [Text ''failed to write forbidden response:''])) (logs out)\<rparr>
         | None \<Rightarrow> \<lparr>writer = w4, logs = logs out\<rparr>)"

definition notFoundHandler :: "Output \<Rightarrow> Output" where
  "notFoundHandler out =
     (let w1 = Header_Set ''Server'' ''nginx'' (writer out);
          w2 = Header_Set ''Content-Type'' ''text/html'' w1;
          w3 = WriteHeader StatusNotFound w2;
          (err, w4) = Write notFoundContent w3
      in case err of
           Some e \<Rightarrow>
             \<lparr>writer = w4,
              logs = WriteToLog None
                       (Base e (newError [Text ''failed to write not found response:''])) (logs out)\<rparr>
         | None \<Rightarrow> \<lparr>writer = w4, logs = logs out\<rparr>)"

section \<open>The upgrader\<close>

record Request =
  URL_Path :: string
  Header :: "string \<rightharpoonup> string list"

text \<open>
  \<^verbatim>\<open>time.Duration\<close> counts nanoseconds in 64 bits; four seconds are far from its bound.
\<close>

definition Second :: int where
  "Second = 1000000000"

text \<open>
  The fields of \<^verbatim>\<open>websocket.Upgrader\<close> that the hub sets. The \<^verbatim>\<open>Error\<close> callback
  receives the response writer (inside the output here), the request, the status the
  library would have answered with and the reason of the failure.
\<close>

record Upgrader =
  ReadBufferSize :: int
  WriteBufferSize :: int
  HandshakeTimeout :: int
  CheckOrigin :: "Request \<Rightarrow> bool"
  Error :: "Request \<Rightarrow> int \<Rightarrow> error \<Rightarrow> Output \<Rightarrow> Output"

definition upgrader :: Upgrader where
  "upgrader =
     \<lparr>ReadBufferSize = 4 * 1024,
      WriteBufferSize = 4 * 1024,
      HandshakeTimeout = Second * 4,
      CheckOrigin = (\<lambda>r. True),
      Error = (\<lambda>r status reason out. forbiddenHandler out)\<rparr>"

text \<open>
  The connection that a successful upgrade returns (\<^verbatim>\<open>*websocket.Conn\<close>).
  \<^verbatim>\<open>RemoteAddr()\<close> hands out the address value that the underlying network connection
  keeps, as the connections of Go's \<^verbatim>\<open>net\<close> package do: a pointer for a TCP peer.
\<close>

record Conn =
  conn_id :: nat
  RemoteAddr :: Addr

text \<open>
  What one call of \<^verbatim>\<open>Upgrade\<close> does is the library's business and an input here. It
  succeeds with a connection, or it fails in one of two ways. A failure found while the
  response writer is still in use (a bad handshake, a missing header, a writer that cannot
  be taken over) is answered through the \<^verbatim>\<open>Error\<close> callback of the upgrader, with the
  status the library chose, and returned as the error. A failure found after the library
  has taken the connection over from the HTTP server (the client sent data before the
  handshake was complete, the reply could not be written) closes the connection and is
  returned as the error without the callback: the response writer is not touched. Each
  call is recorded with the upgrader it was made on.
\<close>

datatype UpgradeResult =
    Upgraded Conn
  | UpgradeFailed int error
  | UpgradeFailedHijacked error

section \<open>The request handler\<close>

text \<open>
  Modelled from the spec: \<^verbatim>\<open>newConnection\<close> and the type \<^verbatim>\<open>connection\<close> of this
  package (file \<^verbatim>\<open>connection.go\<close>, not among the sources): the framed connection
  together with its resolved remote address.
\<close>

record connection =
  conn :: Conn
  remoteAddr :: Addr

definition newConnection :: "Conn \<Rightarrow> Addr \<Rightarrow> connection" where
  "newConnection c a = \<lparr>conn = c, remoteAddr = a\<rparr>"

text \<open>
  The consumer callback (\<^verbatim>\<open>internet.ConnHandler\<close>) is known by its identity; calling
  it is recorded in \<open>delivered\<close>.
\<close>

type_synonym ConnHandler = nat

text \<open>
  The handler's back pointer \<^verbatim>\<open>ln\<close> is only ever followed to \<^verbatim>\<open>ln.addConn\<close>, so
  the handler holds that callback.
\<close>

record requestHandler =
  path :: string
  ln_addConn :: ConnHandler

record World =
  out :: Output
  heap :: store
  attempts :: "(Upgrader \<times> Request) list"
  delivered :: "(ConnHandler \<times> connection) list"

datatype Panic = InterfaceConversion | NilDereference | DomainHasNoIP

datatype Exit = Returned | Panicked Panic

definition Upgrade :: "Upgrader \<Rightarrow> UpgradeResult \<Rightarrow> Request \<Rightarrow> World \<Rightarrow> (error + Conn) \<times> World" where
  "Upgrade u res r s =
     (let s1 = s\<lparr>attempts := attempts s @ [(u, r)]\<rparr>
      in case res of
           Upgraded c \<Rightarrow> (Inr c, s1)
         | UpgradeFailed status reason \<Rightarrow>
             (Inl reason, s1\<lparr>out := Error u r status reason (out s1)\<rparr>)
         | UpgradeFailedHijacked reason \<Rightarrow> (Inl reason, s1))"

subsection \<open>The forwarding header\<close>

definition Header_Get :: "(string \<rightharpoonup> string list) \<Rightarrow> string \<Rightarrow> string" where
  "Header_Get h k = (case h k of Some (v # _) \<Rightarrow> v | _ \<Rightarrow> [])"

fun split_on :: "char \<Rightarrow> string \<Rightarrow> string list" where
  "split_on sep [] = [[]]"
| "split_on sep (c # cs) =
     (if c = sep then [] # split_on sep cs
      else (case split_on sep cs of
              r # rs \<Rightarrow> (c # r) # rs
            | [] \<Rightarrow> [[c]]))"

text \<open>
  Modelled from the spec: \<^verbatim>\<open>ParseXForwardedFor\<close> of package
  \<^verbatim>\<open>common/protocol/http\<close> and \<^verbatim>\<open>ParseAddress\<close> of package \<^verbatim>\<open>common/net\<close>, which
  are not among the sources. The forwarding header is a comma-separated list of client
  addresses, leftmost first; an absent or empty header gives no address; an entry that
  is a syntactically valid IP literal is an IP address, any other entry is not. Which
  strings are valid IP literals is the parameter \<open>parseIP\<close>.
\<close>

definition ParseAddress :: "(string \<Rightarrow> net_IP option) \<Rightarrow> string \<Rightarrow> Address" where
  "ParseAddress parseIP a =
     (case parseIP a of Some ip \<Rightarrow> IPAddress ip | None \<Rightarrow> DomainAddress a)"

definition ParseXForwardedFor :: "(string \<Rightarrow> net_IP option) \<Rightarrow> (string \<rightharpoonup> string list) \<Rightarrow> Address list" where
  "ParseXForwardedFor parseIP header =
     (let xff = Header_Get header ''X-Forwarded-For''
      in if xff = [] then [] else map (ParseAddress parseIP) (split_on CHR '','' xff))"

subsection \<open>\<^verbatim>\<open>ServeHTTP\<close>\<close>

text \<open>
  The statement \<^verbatim>\<open>remoteAddr.(*net.TCPAddr).IP = forwardedAddrs[0].IP()\<close>: the type
  assertion comes first and panics on anything but a \<^verbatim>\<open>*net.TCPAddr\<close>; then the right
  side is evaluated; then the field of the object behind the pointer is overwritten.
\<close>

definition assign_IP :: "Addr \<Rightarrow> Address \<Rightarrow> store \<Rightarrow> Panic + store" where
  "assign_IP ra fwd hp =
     (case ra of
        TCPAddrPtr p \<Rightarrow>
          (case Address_IP fwd of
             None \<Rightarrow> Inl DomainHasNoIP
           | Some ip \<Rightarrow>
               (case hp p of
                  None \<Rightarrow> Inl NilDereference
                | Some a \<Rightarrow> Inr (hp(p \<mapsto> a\<lparr>IP := ip\<rparr>))))
      | _ \<Rightarrow> Inl InterfaceConversion)"

record Env =
  upgrade_result :: UpgradeResult
  parseIP :: "string \<Rightarrow> net_IP option"

definition ServeHTTP :: "requestHandler \<Rightarrow> Env \<Rightarrow> Request \<Rightarrow> World \<Rightarrow> Exit \<times> World" where
  "ServeHTTP h env request s =
     (if URL_Path request \<noteq> path h then (Returned, s\<lparr>out := notFoundHandler (out s)\<rparr>)
      else
        (case Upgrade upgrader (upgrade_result env) request s of
           (Inl err, s1) \<Rightarrow>
             (Returned,
              s1\<lparr>out := (out s1)\<lparr>logs :=
                    WriteToLog None
                      (Base err (newError [Text ''failed to convert to WebSocket connection'']))
                      (logs (out s1))\<rparr>\<rparr>)
         | (Inr c, s1) \<Rightarrow>
             (let forwardedAddrs = ParseXForwardedFor (parseIP env) (Header request);
                  ra = RemoteAddr c
              in case (case forwardedAddrs of
                         a # _ \<Rightarrow> (if IsIP a then assign_IP ra a (heap s1) else Inr (heap s1))
                       | [] \<Rightarrow> Inr (heap s1)) of
                   Inl p \<Rightarrow> (Panicked p, s1)
                 | Inr hp \<Rightarrow>
                     (Returned,
                      s1\<lparr>heap := hp,
                         delivered := delivered s1 @ [(ln_addConn h, newConnection c ra)]\<rparr>))))"

section \<open>The listener\<close>

text \<open>
  Modelled from the spec: the type \<^verbatim>\<open>Config\<close> of this package and its method
  \<^verbatim>\<open>GetNormalizedPath\<close> (file \<^verbatim>\<open>config.go\<close>, not among the sources): the upgrade
  path, normalized to start with a slash, and whether a proxy preamble must be accepted.
\<close>

record Config =
  Path :: string
  AcceptProxyProtocol :: bool

definition GetNormalizedPath :: "Config \<Rightarrow> string" where
  "GetNormalizedPath c =
     (case Path c of
        [] \<Rightarrow> ''/''
      | ch # _ \<Rightarrow> (if ch = CHR ''/'' then Path c else CHR ''/'' # Path c))"

text \<open>
  Modelled from the spec: the stream settings of package \<^verbatim>\<open>transport/internet\<close> and
  the security configuration of package \<^verbatim>\<open>transport/internet/tls\<close>, which are not
  among the sources. The protocol settings are kept in a generic bag, cast to this
  package's \<^verbatim>\<open>Config\<close> by an unchecked type assertion; the transport-security
  configuration is present or absent, and so is the TLS configuration it yields.
\<close>

datatype TLSConfig = TLSConfig string

record V2TLSConfig =
  GetTLSConfig :: "TLSConfig option"

datatype ProtocolSettings = WebSocketSettings Config | OtherSettings string

type_synonym SocketConfig = nat

record MemoryStreamConfig =
  ProtocolSettings :: ProtocolSettings
  SecuritySettings :: "V2TLSConfig option"
  SocketSettings :: SocketConfig

definition ConfigFromStreamSettings :: "MemoryStreamConfig \<Rightarrow> V2TLSConfig option" where
  "ConfigFromStreamSettings settings = SecuritySettings settings"

subsection \<open>Stream listeners\<close>

text \<open>
  The listener of the system, as Go's \<^verbatim>\<open>net\<close> package behaves: the first \<^verbatim>\<open>Close\<close>
  closes it, and closing a closed listener reports an error. The wrappers
  (\<^verbatim>\<open>proxyproto.Listener\<close>, the listener of \<^verbatim>\<open>tls.NewListener\<close>) pass \<^verbatim>\<open>Close\<close>
  and \<^verbatim>\<open>Addr\<close> on to the listener they wrap.
\<close>

record SysListener =
  sl_addr :: TCPAddr
  sl_closed :: bool
  sl_close_calls :: nat

datatype Policy = USE | IGNORE | REJECT | REQUIRE

datatype NetListener =
    SystemListener SysListener
  | ProxyProtoListener NetListener "Addr \<Rightarrow> Policy \<times> error option"
  | TLSListener NetListener TLSConfig

fun NetListener_Close :: "NetListener \<Rightarrow> error option \<times> NetListener" where
  "NetListener_Close (SystemListener sl) =
     ((if sl_closed sl then Some ''use of closed network connection'' else None),
      SystemListener (sl\<lparr>sl_closed := True, sl_close_calls := sl_close_calls sl + 1\<rparr>))"
| "NetListener_Close (ProxyProtoListener l pol) =
     (case NetListener_Close l of (e, l') \<Rightarrow> (e, ProxyProtoListener l' pol))"
| "NetListener_Close (TLSListener l c) =
     (case NetListener_Close l of (e, l') \<Rightarrow> (e, TLSListener l' c))"

fun NetListener_Addr :: "NetListener \<Rightarrow> TCPAddr" where
  "NetListener_Addr (SystemListener sl) = sl_addr sl"
| "NetListener_Addr (ProxyProtoListener l pol) = NetListener_Addr l"
| "NetListener_Addr (TLSListener l c) = NetListener_Addr l"

fun underlying :: "NetListener \<Rightarrow> SysListener" where
  "underlying (SystemListener sl) = sl"
| "underlying (ProxyProtoListener l pol) = underlying l"
| "underlying (TLSListener l c) = underlying l"

subsection \<open>\<^verbatim>\<open>Listener\<close> and \<^verbatim>\<open>ListenWS\<close>\<close>

record Server =
  Handler :: requestHandler
  ReadHeaderTimeout :: int
  MaxHeaderBytes :: int

text \<open>The embedded \<^verbatim>\<open>sync.Mutex\<close> is never locked in this file and has no field here.\<close>

record Listener =
  server :: Server
  listener :: NetListener
  config :: Config
  addConn :: ConnHandler

datatype ListenResult = ListenPanicked Panic | ListenFailed V2Error | Listening Listener

definition policyFunc :: "Addr \<Rightarrow> Policy \<times> error option" where
  "policyFunc upstream = (REQUIRE, None)"

text \<open>
  \<^verbatim>\<open>internet.ListenSystem\<close> is the parameter \<open>ListenSystem\<close>: the system's answer to a
  request to listen on an address. The serving goroutine that \<^verbatim>\<open>ListenWS\<close> starts
  before it returns runs beside the caller and is not part of the returned value.
\<close>

definition ListenWS ::
  "(TCPAddr \<Rightarrow> SocketConfig \<Rightarrow> error + SysListener) \<Rightarrow> nat \<Rightarrow> Address \<Rightarrow> net_Port \<Rightarrow>
     MemoryStreamConfig \<Rightarrow> ConnHandler \<Rightarrow> Log \<Rightarrow> ListenResult \<times> Log" where
  "ListenWS ListenSystem ctx address port streamSettings addConn' lg =
     (case Address_IP address of
        None \<Rightarrow> (ListenPanicked DomainHasNoIP, lg)
      | Some ip \<Rightarrow>
          (case ListenSystem \<lparr>IP = ip, Port = uint port, Zone = []\<rparr> (SocketSettings streamSettings) of
             Inl err \<Rightarrow>
               (ListenFailed
                  (Base err (newError [Text ''failed to listen TCP(for WS) on'',
                                       AddressArg address, Text '':'', PortArg port])),
                lg)
           | Inr sys \<Rightarrow>
               (let lg1 = WriteToLog (Some ctx)
                            (newError [Text ''listening TCP(for WS) on '',
                                       AddressArg address, Text '':'', PortArg port]) lg
                in case ProtocolSettings streamSettings of
                     OtherSettings _ \<Rightarrow> (ListenPanicked InterfaceConversion, lg1)
                   | WebSocketSettings wsSettings \<Rightarrow>
                       (let (listener1, lg2) =
                              (if AcceptProxyProtocol wsSettings
                               then (ProxyProtoListener (SystemListener sys) policyFunc,
                                     WriteToLog (Some ctx)
                                       (AtWarning (newError [Text ''accepting PROXY protocol''])) lg1)
                               else (SystemListener sys, lg1));
                            listener2 =
                              (case ConfigFromStreamSettings streamSettings of
                                 None \<Rightarrow> listener1
                               | Some tc \<Rightarrow>
                                   (case GetTLSConfig tc of
                                      None \<Rightarrow> listener1
                                    | Some tlsConfig \<Rightarrow> TLSListener listener1 tlsConfig));
                            l = \<lparr>server =
                                   \<lparr>Handler = \<lparr>path = GetNormalizedPath wsSettings,
                                               ln_addConn = addConn'\<rparr>,
                                    ReadHeaderTimeout = Second * 4,
                                    MaxHeaderBytes = 2048\<rparr>,
                                 listener = listener2,
                                 config = wsSettings,
                                 addConn = addConn'\<rparr>
                        in (Listening l, lg2)))))"

definition Listener_Addr :: "Listener \<Rightarrow> TCPAddr" where
  "Listener_Addr ln = NetListener_Addr (listener ln)"

definition Listener_Close :: "Listener \<Rightarrow> error option \<times> Listener" where
  "Listener_Close ln =
     (case NetListener_Close (listener ln) of (e, l') \<Rightarrow> (e, ln\<lparr>listener := l'\<rparr>))"

section \<open>Facts about the handlers\<close>

lemma forbiddenHandler_fresh:
  "forbiddenHandler \<lparr>writer = newResponseWriter b, logs = lg\<rparr> =
     \<lparr>writer =
        \<lparr>rw_header = [''Server'' \<mapsto> [''nginx''], ''Content-Type'' \<mapsto> [''text/html'']],
         rw_sent = Some (403, [''Server'' \<mapsto> [''nginx''], ''Content-Type'' \<mapsto> [''text/html'']]),
         rw_body = forbiddenContent,
         rw_broken = b\<rparr>,
      logs = (case b of
                None \<Rightarrow> lg
              | Some e \<Rightarrow> lg @ [(\<lparr>message = [Text ''failed to write forbidden response:''],
                                  base = Some e, severity = Info\<rparr>, None)])\<rparr>"
  by (simp add: forbiddenHandler_def newResponseWriter_def Header_Set_def WriteHeader_def
      Write_def StatusForbidden_def WriteToLog_def Base_def newError_def Let_def
      split: option.splits)

lemma notFoundHandler_fresh:
  "notFoundHandler \<lparr>writer = newResponseWriter b, logs = lg\<rparr> =
     \<lparr>writer =
        \<lparr>rw_header = [''Server'' \<mapsto> [''nginx''], ''Content-Type'' \<mapsto> [''text/html'']],
         rw_sent = Some (404, [''Server'' \<mapsto> [''nginx''], ''Content-Type'' \<mapsto> [''text/html'']]),
         rw_body = notFoundContent,
         rw_broken = b\<rparr>,
      logs = (case b of
                None \<Rightarrow> lg
              | Some e \<Rightarrow> lg @ [(\<lparr>message = [Text ''failed to write not found response:''],
                                  base = Some e, severity = Info\<rparr>, None)])\<rparr>"
  by (simp add: notFoundHandler_def newResponseWriter_def Header_Set_def WriteHeader_def
      Write_def StatusNotFound_def WriteToLog_def Base_def newError_def Let_def
      split: option.splits)

lemma ServeHTTP_path_mismatch:
  "URL_Path request \<noteq> path h \<Longrightarrow>
     ServeHTTP h env request s = (Returned, s\<lparr>out := notFoundHandler (out s)\<rparr>)"
  by (simp add: ServeHTTP_def)

lemma ServeHTTP_upgrade_failed:
  "URL_Path request = path h \<Longrightarrow> upgrade_result env = UpgradeFailed status reason \<Longrightarrow>
     ServeHTTP h env request s =
       (Returned,
        s\<lparr>attempts := attempts s @ [(upgrader, request)],
          out := (forbiddenHandler (out s))\<lparr>logs :=
                   logs (forbiddenHandler (out s)) @
                     [(\<lparr>message = [Text ''failed to convert to WebSocket connection''],
                        base = Some reason, severity = Info\<rparr>, None)]\<rparr>\<rparr>)"
  by (simp add: ServeHTTP_def Upgrade_def upgrader_def WriteToLog_def Base_def newError_def)

lemma ServeHTTP_upgrade_failed_hijacked:
  "URL_Path request = path h \<Longrightarrow> upgrade_result env = UpgradeFailedHijacked reason \<Longrightarrow>
     ServeHTTP h env request s =
       (Returned,
        s\<lparr>attempts := attempts s @ [(upgrader, request)],
          out := (out s)\<lparr>logs :=
                   logs (out s) @
                     [(\<lparr>message = [Text ''failed to convert to WebSocket connection''],
                        base = Some reason, severity = Info\<rparr>, None)]\<rparr>\<rparr>)"
  by (simp add: ServeHTTP_def Upgrade_def WriteToLog_def Base_def newError_def)

lemma ServeHTTP_upgraded:
  "URL_Path request = path h \<Longrightarrow> upgrade_result env = Upgraded c \<Longrightarrow>
     ServeHTTP h env request s =
       (case (case ParseXForwardedFor (parseIP env) (Header request) of
                a # _ \<Rightarrow> (if IsIP a then assign_IP (RemoteAddr c) a (heap s) else Inr (heap s))
              | [] \<Rightarrow> Inr (heap s)) of
          Inl p \<Rightarrow> (Panicked p, s\<lparr>attempts := attempts s @ [(upgrader, request)]\<rparr>)
        | Inr hp \<Rightarrow>
            (Returned,
             s\<lparr>attempts := attempts s @ [(upgrader, request)], heap := hp,
               delivered := delivered s @ [(ln_addConn h, newConnection c (RemoteAddr c))]\<rparr>))"
  by (simp add: ServeHTTP_def Upgrade_def Let_def split: sum.splits list.splits)

lemma split_on_not_Nil: "split_on sep xs \<noteq> []"
  by (induction xs) (auto split: list.splits)

lemma ParseXForwardedFor_absent:
  "Header_Get hdr ''X-Forwarded-For'' = [] \<Longrightarrow> ParseXForwardedFor pip hdr = []"
  by (simp add: ParseXForwardedFor_def)

lemma ParseXForwardedFor_first:
  "Header_Get hdr ''X-Forwarded-For'' = xff \<Longrightarrow> xff \<noteq> [] \<Longrightarrow>
   split_on CHR '','' xff = e # es \<Longrightarrow>
     ParseXForwardedFor pip hdr = ParseAddress pip e # map (ParseAddress pip) es"
  by (simp add: ParseXForwardedFor_def)

text \<open>
  With a forwarding header whose first entry is a valid IP literal, the outcome is decided
  by the assignment to the address object: a TCP peer is delivered once, with its address
  object rewritten.
\<close>

lemma ServeHTTP_forwarded:
  assumes "URL_Path request = path h"
    and "upgrade_result env = Upgraded c"
    and "Header_Get (Header request) ''X-Forwarded-For'' = xff" and "xff \<noteq> []"
    and "split_on CHR '','' xff = e # es"
    and "parseIP env e = Some ip"
  shows "ServeHTTP h env request s =
           (case assign_IP (RemoteAddr c) (IPAddress ip) (heap s) of
              Inl p \<Rightarrow> (Panicked p, s\<lparr>attempts := attempts s @ [(upgrader, request)]\<rparr>)
            | Inr hp \<Rightarrow>
                (Returned,
                 s\<lparr>attempts := attempts s @ [(upgrader, request)], heap := hp,
                   delivered := delivered s @ [(ln_addConn h, newConnection c (RemoteAddr c))]\<rparr>))"
  using assms
  by (simp add: ServeHTTP_upgraded ParseXForwardedFor_first [of _ xff e es] ParseAddress_def)

text \<open>
  Without a forwarding header, or with one whose first entry is no IP literal, the
  connection is delivered once with the address that the connection reports, whatever the
  kind of that address, and no address object is touched.
\<close>

lemma ServeHTTP_passthrough:
  assumes "URL_Path request = path h"
    and "upgrade_result env = Upgraded c"
    and "Header_Get (Header request) ''X-Forwarded-For'' = xff"
    and "split_on CHR '','' xff = e # es"
    and "xff = [] \<or> parseIP env e = None"
  shows "ServeHTTP h env request s =
           (Returned,
            s\<lparr>attempts := attempts s @ [(upgrader, request)], heap := heap s,
              delivered := delivered s @ [(ln_addConn h, newConnection c (RemoteAddr c))]\<rparr>)"
proof (cases "xff = []")
  case True
  with assms show ?thesis
    by (simp add: ServeHTTP_upgraded ParseXForwardedFor_absent)
next
  case False
  with assms show ?thesis
    by (simp add: ServeHTTP_upgraded ParseXForwardedFor_first [of _ xff e es] ParseAddress_def)
qed

section \<open>Facts about the listener\<close>

lemma ListenWS_listening:
  assumes "Address_IP address = Some ip"
    and "ListenSystem \<lparr>IP = ip, Port = uint port, Zone = []\<rparr> (SocketSettings st) = Inr sys"
    and "ProtocolSettings st = WebSocketSettings ws"
  shows "fst (ListenWS ListenSystem ctx address port st ac lg) =
           Listening
             \<lparr>server = \<lparr>Handler = \<lparr>path = GetNormalizedPath ws, ln_addConn = ac\<rparr>,
                        ReadHeaderTimeout = Second * 4, MaxHeaderBytes = 2048\<rparr>,
              listener =
                (case (AcceptProxyProtocol ws, Option.bind (ConfigFromStreamSettings st) GetTLSConfig) of
                   (True, Some t) \<Rightarrow> TLSListener (ProxyProtoListener (SystemListener sys) policyFunc) t
                 | (True, None) \<Rightarrow> ProxyProtoListener (SystemListener sys) policyFunc
                 | (False, Some t) \<Rightarrow> TLSListener (SystemListener sys) t
                 | (False, None) \<Rightarrow> SystemListener sys),
              config = ws, addConn = ac\<rparr>"
proof (cases "AcceptProxyProtocol ws")
  case True
  show ?thesis
  proof (cases "ConfigFromStreamSettings st")
    case None
    with True assms show ?thesis by (simp add: ListenWS_def)
  next
    case (Some tc)
    with True assms show ?thesis by (cases "GetTLSConfig tc") (simp_all add: ListenWS_def)
  qed
next
  case False
  show ?thesis
  proof (cases "ConfigFromStreamSettings st")
    case None
    with False assms show ?thesis by (simp add: ListenWS_def)
  next
    case (Some tc)
    with False assms show ?thesis by (cases "GetTLSConfig tc") (simp_all add: ListenWS_def)
  qed
qed

lemma GetNormalizedPath_slash: "\<exists>rest. GetNormalizedPath c = CHR ''/'' # rest"
  by (simp add: GetNormalizedPath_def split: list.splits)

lemma NetListener_Close_underlying:
  "underlying (snd (NetListener_Close l)) =
     (underlying l)\<lparr>sl_closed := True, sl_close_calls := sl_close_calls (underlying l) + 1\<rparr>"
  by (induction l) (auto split: prod.splits)

lemma NetListener_Close_result:
  "fst (NetListener_Close l) =
     (if sl_closed (underlying l) then Some ''use of closed network connection'' else None)"
  by (induction l) (auto split: prod.splits)

lemma Listener_Close_fst: "fst (Listener_Close ln) = fst (NetListener_Close (listener ln))"
  by (simp add: Listener_Close_def split: prod.splits)

lemma Listener_Close_snd:
  "listener (snd (Listener_Close ln)) = snd (NetListener_Close (listener ln))"
  by (simp add: Listener_Close_def split: prod.splits)

section \<open>The claims about the camouflage responses\<close>

text \<open>
  Claim C5. On a fresh response writer, \<^verbatim>\<open>forbiddenHandler\<close> and
  \<^verbatim>\<open>notFoundHandler\<close> each produce a fixed response: the header \<^verbatim>\<open>Server: nginx\<close>
  (with \<^verbatim>\<open>Content-Type: text/html\<close>), the status 403 or 404, and the fixed HTML body of
  138 bytes, whether or not the sink accepts the write; on any writer the body is handed
  to \<^verbatim>\<open>Write\<close> once and whole.
\<close>

theorem camouflage_responses:
  "writer (forbiddenHandler \<lparr>writer = newResponseWriter b, logs = lg\<rparr>) =
     \<lparr>rw_header = [''Server'' \<mapsto> [''nginx''], ''Content-Type'' \<mapsto> [''text/html'']],
      rw_sent = Some (403, [''Server'' \<mapsto> [''nginx''], ''Content-Type'' \<mapsto> [''text/html'']]),
      rw_body = forbiddenContent, rw_broken = b\<rparr> \<and>
   writer (notFoundHandler \<lparr>writer = newResponseWriter b, logs = lg\<rparr>) =
     \<lparr>rw_header = [''Server'' \<mapsto> [''nginx''], ''Content-Type'' \<mapsto> [''text/html'']],
      rw_sent = Some (404, [''Server'' \<mapsto> [''nginx''], ''Content-Type'' \<mapsto> [''text/html'']]),
      rw_body = notFoundContent, rw_broken = b\<rparr> \<and>
   rw_body (writer (forbiddenHandler out0)) = rw_body (writer out0) @ forbiddenContent \<and>
   rw_body (writer (notFoundHandler out0)) = rw_body (writer out0) @ notFoundContent \<and>
   length forbiddenContent = 138 \<and> length notFoundContent = 138"
proof -
  have "rw_body (writer (forbiddenHandler out0)) = rw_body (writer out0) @ forbiddenContent"
    by (simp add: forbiddenHandler_def Header_Set_def WriteHeader_def Write_def Let_def
        split: option.splits)
  moreover have "rw_body (writer (notFoundHandler out0)) = rw_body (writer out0) @ notFoundContent"
    by (simp add: notFoundHandler_def Header_Set_def WriteHeader_def Write_def Let_def
        split: option.splits)
  moreover have "length forbiddenContent = 138" by (simp add: forbiddenContent_def)
  moreover have "length notFoundContent = 138" by (simp add: notFoundContent_def)
  ultimately show ?thesis
    by (simp add: forbiddenHandler_fresh notFoundHandler_fresh)
qed

section \<open>The claims about the request handler\<close>

text \<open>
  Claim C2. A request whose path differs from the configured path is answered with status
  404 and the fixed 404 camouflage body; no upgrade is attempted and the consumer callback
  is not invoked. The response writer is the fresh one that the HTTP server hands to the
  handler.
\<close>

theorem path_mismatch_not_found:
  assumes "URL_Path request \<noteq> path h"
    and "out s = \<lparr>writer = newResponseWriter b, logs = lg\<rparr>"
  shows "let s' = snd (ServeHTTP h env request s); w = writer (out s')
         in fst (ServeHTTP h env request s) = Returned \<and>
            rw_sent w = Some (404, [''Server'' \<mapsto> [''nginx''], ''Content-Type'' \<mapsto> [''text/html'']]) \<and>
            rw_body w = notFoundContent \<and>
            attempts s' = attempts s \<and>
            delivered s' = delivered s \<and>
            heap s' = heap s"
  using assms by (simp add: ServeHTTP_path_mismatch notFoundHandler_fresh)

theorem path_mismatch_not_found_witness:
  "let r = ServeHTTP \<lparr>path = ''/ws'', ln_addConn = 0\<rparr>
             \<lparr>upgrade_result = Upgraded \<lparr>conn_id = 1, RemoteAddr = TCPAddrPtr 7\<rparr>,
              parseIP = (\<lambda>x. None)\<rparr>
             \<lparr>URL_Path = ''/other'', Header = Map.empty\<rparr>
             \<lparr>out = \<lparr>writer = newResponseWriter None, logs = []\<rparr>, heap = Map.empty, attempts = [], delivered = []\<rparr>;
       w = writer (out (snd r))
   in fst r = Returned \<and>
      rw_sent w = Some (404, [''Server'' \<mapsto> [''nginx''], ''Content-Type'' \<mapsto> [''text/html'']]) \<and>
      rw_body w = notFoundContent \<and>
      attempts (snd r) = [] \<and> delivered (snd r) = []"
  using path_mismatch_not_found
    [where request = "\<lparr>URL_Path = ''/other'', Header = Map.empty\<rparr>"
       and h = "\<lparr>path = ''/ws'', ln_addConn = 0\<rparr>"
       and env = "\<lparr>upgrade_result = Upgraded \<lparr>conn_id = 1, RemoteAddr = TCPAddrPtr 7\<rparr>,
                   parseIP = (\<lambda>x. None)\<rparr>"
       and s = "\<lparr>out = \<lparr>writer = newResponseWriter None, logs = []\<rparr>, heap = Map.empty, attempts = [], delivered = []\<rparr>"
       and b = None and lg = "[]"]
  by (simp add: Let_def)

text \<open>
  Claim C3, as the code has it. When the path matches and the upgrade fails, the handler
  writes the reason to the log as the cause of its own log entry, invokes no consumer
  callback and answers nothing itself. What the peer receives is the library's doing: a
  failure that the library reports through the error callback is answered with the 403
  camouflage response and nothing else, whatever the status and the reason; a failure after
  the library has taken the connection over reaches no callback, and the response writer
  stays as it was.
\<close>

theorem upgrade_failure_logged_not_delivered:
  assumes "URL_Path request = path h"
    and "upgrade_result env = UpgradeFailed status reason \<or>
         upgrade_result env = UpgradeFailedHijacked reason"
    and "out s = \<lparr>writer = newResponseWriter b, logs = lg\<rparr>"
  shows "let s' = snd (ServeHTTP h env request s); w = writer (out s')
         in fst (ServeHTTP h env request s) = Returned \<and>
            rw_sent w =
              (case upgrade_result env of
                 UpgradeFailed _ _ \<Rightarrow> Some (403, [''Server'' \<mapsto> [''nginx''], ''Content-Type'' \<mapsto> [''text/html'']])
               | _ \<Rightarrow> None) \<and>
            rw_body w =
              (case upgrade_result env of
                 UpgradeFailed _ _ \<Rightarrow> forbiddenContent
               | _ \<Rightarrow> []) \<and>
            last (logs (out s')) =
              (\<lparr>message = [Text ''failed to convert to WebSocket connection''],
                base = Some reason, severity = Info\<rparr>, None) \<and>
            attempts s' = attempts s @ [(upgrader, request)] \<and>
            delivered s' = delivered s \<and>
            heap s' = heap s"
  using assms(2)
proof
  assume "upgrade_result env = UpgradeFailed status reason"
  with assms(1,3) show ?thesis
    by (simp add: ServeHTTP_upgrade_failed forbiddenHandler_fresh)
next
  assume "upgrade_result env = UpgradeFailedHijacked reason"
  with assms(1,3) show ?thesis
    by (simp add: ServeHTTP_upgrade_failed_hijacked newResponseWriter_def)
qed

theorem upgrade_failure_logged_not_delivered_witness:
  "let r = ServeHTTP \<lparr>path = ''/ws'', ln_addConn = 0\<rparr>
             \<lparr>upgrade_result = UpgradeFailed 400 ''upgrade token not found'',
              parseIP = (\<lambda>x. None)\<rparr>
             \<lparr>URL_Path = ''/ws'', Header = Map.empty\<rparr>
             \<lparr>out = \<lparr>writer = newResponseWriter None, logs = []\<rparr>, heap = Map.empty, attempts = [], delivered = []\<rparr>;
       w = writer (out (snd r))
   in fst r = Returned \<and>
      rw_sent w = Some (403, [''Server'' \<mapsto> [''nginx''], ''Content-Type'' \<mapsto> [''text/html'']]) \<and>
      rw_body w = forbiddenContent \<and>
      last (logs (out (snd r))) =
        (\<lparr>message = [Text ''failed to convert to WebSocket connection''],
          base = Some ''upgrade token not found'', severity = Info\<rparr>, None) \<and>
      delivered (snd r) = []"
  using upgrade_failure_logged_not_delivered
    [where request = "\<lparr>URL_Path = ''/ws'', Header = Map.empty\<rparr>"
       and h = "\<lparr>path = ''/ws'', ln_addConn = 0\<rparr>"
       and env = "\<lparr>upgrade_result = UpgradeFailed 400 ''upgrade token not found'',
                   parseIP = (\<lambda>x. None)\<rparr>"
       and s = "\<lparr>out = \<lparr>writer = newResponseWriter None, logs = []\<rparr>, heap = Map.empty, attempts = [], delivered = []\<rparr>"
       and status = 400 and reason = "''upgrade token not found''"
       and b = None and lg = "[]"]
  by (simp add: Let_def)

text \<open>
  Claim C3, as stated, fails: when the upgrade fails after the library has taken the
  connection over (here because the client sent data before the handshake was complete),
  the path matches, the handler returns, and no status line and no byte of the 403
  camouflage response has been written.
\<close>

theorem upgrade_failure_after_hijack_counterexample:
  "fst (ServeHTTP \<lparr>path = ''/ws'', ln_addConn = 0\<rparr>
          \<lparr>upgrade_result =
             UpgradeFailedHijacked ''client sent data before handshake is complete'',
           parseIP = (\<lambda>x. None)\<rparr>
          \<lparr>URL_Path = ''/ws'', Header = Map.empty\<rparr>
          \<lparr>out = \<lparr>writer = newResponseWriter None, logs = []\<rparr>, heap = Map.empty, attempts = [], delivered = []\<rparr>) = Returned \<and>
   rw_sent (writer (out (snd (ServeHTTP \<lparr>path = ''/ws'', ln_addConn = 0\<rparr>
          \<lparr>upgrade_result =
             UpgradeFailedHijacked ''client sent data before handshake is complete'',
           parseIP = (\<lambda>x. None)\<rparr>
          \<lparr>URL_Path = ''/ws'', Header = Map.empty\<rparr>
          \<lparr>out = \<lparr>writer = newResponseWriter None, logs = []\<rparr>, heap = Map.empty, attempts = [], delivered = []\<rparr>)))) = None \<and>
   rw_body (writer (out (snd (ServeHTTP \<lparr>path = ''/ws'', ln_addConn = 0\<rparr>
          \<lparr>upgrade_result =
             UpgradeFailedHijacked ''client sent data before handshake is complete'',
           parseIP = (\<lambda>x. None)\<rparr>
          \<lparr>URL_Path = ''/ws'', Header = Map.empty\<rparr>
          \<lparr>out = \<lparr>writer = newResponseWriter None, logs = []\<rparr>, heap = Map.empty, attempts = [], delivered = []\<rparr>)))) = [] \<and>
   forbiddenContent \<noteq> []"
  by (simp add: ServeHTTP_def Upgrade_def newResponseWriter_def forbiddenContent_def)

text \<open>
  Claim C7. The upgrader has buffers of 4096 bytes for reading and for writing and a
  handshake timeout of four seconds, accepts every origin, and answers every failure with
  the 403 camouflage response, whatever the status and the reason; every upgrade that the
  handler attempts is made on this upgrader.
\<close>

theorem upgrader_fixed_parameters:
  "ReadBufferSize upgrader = 4096 \<and>
   WriteBufferSize upgrader = 4096 \<and>
   HandshakeTimeout upgrader = 4 * Second \<and> Second = 1000000000 \<and>
   (\<forall>r. CheckOrigin upgrader r) \<and>
   (\<forall>r status reason out. Error upgrader r status reason out = forbiddenHandler out) \<and>
   (\<forall>r status reason b lg.
      rw_sent (writer (Error upgrader r status reason \<lparr>writer = newResponseWriter b, logs = lg\<rparr>)) =
        Some (403, [''Server'' \<mapsto> [''nginx''], ''Content-Type'' \<mapsto> [''text/html'']]) \<and>
      rw_body (writer (Error upgrader r status reason \<lparr>writer = newResponseWriter b, logs = lg\<rparr>)) =
        forbiddenContent) \<and>
   (\<forall>h env request s.
      attempts (snd (ServeHTTP h env request s)) =
        attempts s @ (if URL_Path request = path h then [(upgrader, request)] else []))"
proof -
  have att: "attempts (snd (ServeHTTP h env request s)) =
        attempts s @ (if URL_Path request = path h then [(upgrader, request)] else [])"
    for h env request s
  proof (cases "URL_Path request = path h")
    case False
    then show ?thesis by (simp add: ServeHTTP_path_mismatch)
  next
    case True
    show ?thesis
    proof (cases "upgrade_result env")
      case (Upgraded c)
      with True show ?thesis
        by (simp add: ServeHTTP_upgraded split: sum.splits)
    next
      case (UpgradeFailed st r)
      with True show ?thesis by (simp add: ServeHTTP_upgrade_failed)
    next
      case (UpgradeFailedHijacked r)
      with True show ?thesis by (simp add: ServeHTTP_upgrade_failed_hijacked)
    qed
  qed
  show ?thesis
    by (simp add: att) (simp add: upgrader_def Second_def forbiddenHandler_fresh)
qed

text \<open>
  Claim C1. The claim asks that every upgraded request is delivered to the consumer exactly
  once, with the forwarded IP when the header's first entry is a valid IP. At this input
  (a peer whose remote address is not a TCP address, a forwarding header whose first entry
  is a valid IP) the handler panics in the type assertion and delivers nothing.
\<close>

theorem forwarded_ip_over_unix_peer_panics:
  "ServeHTTP \<lparr>path = ''/ws'', ln_addConn = 0\<rparr>
     \<lparr>upgrade_result = Upgraded \<lparr>conn_id = 1, RemoteAddr = OtherAddr ''/run/peer.sock''\<rparr>,
      parseIP = (\<lambda>x. if x = ''203.0.113.7'' then Some [203, 0, 113, 7] else None)\<rparr>
     \<lparr>URL_Path = ''/ws'', Header = [''X-Forwarded-For'' \<mapsto> [''203.0.113.7, 10.0.0.1'']]\<rparr>
     \<lparr>out = \<lparr>writer = newResponseWriter None, logs = []\<rparr>, heap = Map.empty, attempts = [], delivered = []\<rparr>
   = (Panicked InterfaceConversion,
      \<lparr>out = \<lparr>writer = newResponseWriter None, logs = []\<rparr>, heap = Map.empty,
       attempts = [(upgrader,
                    \<lparr>URL_Path = ''/ws'',
                     Header = [''X-Forwarded-For'' \<mapsto> [''203.0.113.7, 10.0.0.1'']]\<rparr>)],
       delivered = []\<rparr>)"
  by (simp add: ServeHTTP_def Upgrade_def ParseXForwardedFor_def Header_Get_def
      ParseAddress_def assign_IP_def Let_def)

text \<open>
  Claim C9. The cast of the remote address to a TCP address is unchecked: when the upgrade
  succeeded, the remote address of the connection is not a \<^verbatim>\<open>*net.TCPAddr\<close> and the first
  entry of the forwarding header is a valid IP, the handler panics; the connection is not
  delivered with its physical address.
\<close>

theorem non_tcp_remote_addr_panics:
  assumes "URL_Path request = path h"
    and "upgrade_result env = Upgraded c"
    and "\<forall>p. RemoteAddr c \<noteq> TCPAddrPtr p"
    and "ParseXForwardedFor (parseIP env) (Header request) = a # rest" and "IsIP a"
  shows "fst (ServeHTTP h env request s) = Panicked InterfaceConversion \<and>
         delivered (snd (ServeHTTP h env request s)) = delivered s \<and>
         heap (snd (ServeHTTP h env request s)) = heap s"
  using assms(3,4,5) ServeHTTP_upgraded [OF assms(1,2), of s]
  by (cases "RemoteAddr c") (simp_all add: assign_IP_def)

theorem non_tcp_remote_addr_panics_witness:
  "let r = ServeHTTP \<lparr>path = ''/ws'', ln_addConn = 0\<rparr>
             \<lparr>upgrade_result = Upgraded \<lparr>conn_id = 2, RemoteAddr = NilAddr\<rparr>,
              parseIP = (\<lambda>x. if x = ''198.51.100.9'' then Some [198, 51, 100, 9] else None)\<rparr>
             \<lparr>URL_Path = ''/ws'', Header = [''X-Forwarded-For'' \<mapsto> [''198.51.100.9'']]\<rparr>
             \<lparr>out = \<lparr>writer = newResponseWriter None, logs = []\<rparr>, heap = Map.empty, attempts = [], delivered = []\<rparr>
   in fst r = Panicked InterfaceConversion \<and> delivered (snd r) = [] \<and> heap (snd r) = Map.empty"
  using non_tcp_remote_addr_panics
    [where request = "\<lparr>URL_Path = ''/ws'', Header = [''X-Forwarded-For'' \<mapsto> [''198.51.100.9'']]\<rparr>"
       and h = "\<lparr>path = ''/ws'', ln_addConn = 0\<rparr>"
       and env = "\<lparr>upgrade_result = Upgraded \<lparr>conn_id = 2, RemoteAddr = NilAddr\<rparr>,
                   parseIP = (\<lambda>x. if x = ''198.51.100.9'' then Some [198, 51, 100, 9] else None)\<rparr>"
       and c = "\<lparr>conn_id = 2, RemoteAddr = NilAddr\<rparr>"
       and a = "IPAddress [198, 51, 100, 9]" and rest = "[]"
       and s = "\<lparr>out = \<lparr>writer = newResponseWriter None, logs = []\<rparr>, heap = Map.empty, attempts = [], delivered = []\<rparr>"]
  by (simp add: Let_def ParseXForwardedFor_def Header_Get_def ParseAddress_def)

text \<open>
  Claim C10. When a valid forwarded IP is honoured, the address object behind the pointer
  that \<^verbatim>\<open>RemoteAddr\<close> returned is updated in place: its IP becomes the forwarded IP, its
  port and zone stay, and no other object changes. The consumer receives that same pointer,
  which is also what the connection itself reports, so the connection's own remote address
  shows the rewritten IP afterwards.
\<close>

theorem forwarded_ip_rewrites_in_place:
  assumes "URL_Path request = path h"
    and "upgrade_result env = Upgraded c"
    and "RemoteAddr c = TCPAddrPtr p" and "heap s p = Some a"
    and "ParseXForwardedFor (parseIP env) (Header request) = IPAddress ip # rest"
  shows "let s' = snd (ServeHTTP h env request s)
         in fst (ServeHTTP h env request s) = Returned \<and>
            heap s' = (heap s)(p \<mapsto> a\<lparr>IP := ip\<rparr>) \<and>
            heap s' p = Some \<lparr>IP = ip, Port = Port a, Zone = Zone a\<rparr> \<and>
            delivered s' = delivered s @ [(ln_addConn h, \<lparr>conn = c, remoteAddr = TCPAddrPtr p\<rparr>)] \<and>
            remoteAddr (snd (last (delivered s'))) = RemoteAddr (conn (snd (last (delivered s'))))"
  using assms(3,4,5) ServeHTTP_upgraded [OF assms(1,2), of s]
  by (simp add: assign_IP_def newConnection_def)

theorem forwarded_ip_rewrites_in_place_witness:
  "let r = ServeHTTP \<lparr>path = ''/ws'', ln_addConn = 0\<rparr>
             \<lparr>upgrade_result = Upgraded \<lparr>conn_id = 1, RemoteAddr = TCPAddrPtr 7\<rparr>,
              parseIP = (\<lambda>x. if x = ''203.0.113.7'' then Some [203, 0, 113, 7] else None)\<rparr>
             \<lparr>URL_Path = ''/ws'', Header = [''X-Forwarded-For'' \<mapsto> [''203.0.113.7, 10.0.0.1'']]\<rparr>
             \<lparr>out = \<lparr>writer = newResponseWriter None, logs = []\<rparr>,
              heap = [7 \<mapsto> \<lparr>IP = [10, 0, 0, 2], Port = 5555, Zone = []\<rparr>],
              attempts = [], delivered = []\<rparr>
   in fst r = Returned \<and>
      heap (snd r) 7 = Some \<lparr>IP = [203, 0, 113, 7], Port = 5555, Zone = []\<rparr> \<and>
      delivered (snd r) =
        [(0, \<lparr>conn = \<lparr>conn_id = 1, RemoteAddr = TCPAddrPtr 7\<rparr>, remoteAddr = TCPAddrPtr 7\<rparr>)]"
  using forwarded_ip_rewrites_in_place
    [where request = "\<lparr>URL_Path = ''/ws'',
                       Header = [''X-Forwarded-For'' \<mapsto> [''203.0.113.7, 10.0.0.1'']]\<rparr>"
       and h = "\<lparr>path = ''/ws'', ln_addConn = 0\<rparr>"
       and env = "\<lparr>upgrade_result = Upgraded \<lparr>conn_id = 1, RemoteAddr = TCPAddrPtr 7\<rparr>,
                   parseIP = (\<lambda>x. if x = ''203.0.113.7'' then Some [203, 0, 113, 7] else None)\<rparr>"
       and c = "\<lparr>conn_id = 1, RemoteAddr = TCPAddrPtr 7\<rparr>"
       and p = 7 and a = "\<lparr>IP = [10, 0, 0, 2], Port = 5555, Zone = []\<rparr>"
       and ip = "[203, 0, 113, 7]" and rest = "[DomainAddress '' 10.0.0.1'']"
       and s = "\<lparr>out = \<lparr>writer = newResponseWriter None, logs = []\<rparr>,
                 heap = [7 \<mapsto> \<lparr>IP = [10, 0, 0, 2], Port = 5555, Zone = []\<rparr>],
                 attempts = [], delivered = []\<rparr>"]
  by (simp add: Let_def ParseXForwardedFor_def Header_Get_def ParseAddress_def)

section \<open>The claims about the listener\<close>

text \<open>
  Claim C6. When the system listener is open and the settings are those of this transport,
  \<^verbatim>\<open>ListenWS\<close> wraps it first by the preamble wrapper with the policy that requires a
  preamble, when \<^verbatim>\<open>AcceptProxyProtocol\<close> is set, and then by the TLS wrapper, when a TLS
  configuration is present: the TLS layer is always the outer one, and a wrapper whose
  configuration is absent is not applied.
\<close>

theorem ListenWS_wrapping_order:
  assumes "Address_IP address = Some ip"
    and "ListenSystem \<lparr>IP = ip, Port = uint port, Zone = []\<rparr> (SocketSettings st) = Inr sys"
    and "ProtocolSettings st = WebSocketSettings ws"
  shows "\<exists>l. fst (ListenWS ListenSystem ctx address port st ac lg) = Listening l \<and>
           listener l =
             (case (AcceptProxyProtocol ws, Option.bind (ConfigFromStreamSettings st) GetTLSConfig) of
                (True, Some t) \<Rightarrow> TLSListener (ProxyProtoListener (SystemListener sys) policyFunc) t
              | (True, None) \<Rightarrow> ProxyProtoListener (SystemListener sys) policyFunc
              | (False, Some t) \<Rightarrow> TLSListener (SystemListener sys) t
              | (False, None) \<Rightarrow> SystemListener sys) \<and>
           (\<forall>upstream. policyFunc upstream = (REQUIRE, None))"
  using ListenWS_listening [where ListenSystem = ListenSystem and ctx = ctx and ac = ac and lg = lg, OF assms]
  by (simp add: policyFunc_def)

theorem ListenWS_wrapping_order_witness:
  "\<exists>l. fst (ListenWS (\<lambda>a so. Inr \<lparr>sl_addr = a, sl_closed = False, sl_close_calls = 0\<rparr>)
               1 (IPAddress [0, 0, 0, 0]) 443
               \<lparr>ProtocolSettings = WebSocketSettings \<lparr>Path = ''ws'', AcceptProxyProtocol = True\<rparr>,
                SecuritySettings = Some \<lparr>GetTLSConfig = Some (TLSConfig ''site'')\<rparr>,
                SocketSettings = 0\<rparr>
               0 []) = Listening l \<and>
        listener l =
          TLSListener
            (ProxyProtoListener
               (SystemListener \<lparr>sl_addr = \<lparr>IP = [0, 0, 0, 0], Port = 443, Zone = []\<rparr>,
                                sl_closed = False, sl_close_calls = 0\<rparr>)
               policyFunc)
            (TLSConfig ''site'')"
  using ListenWS_wrapping_order
    [where ListenSystem = "\<lambda>a so. Inr \<lparr>sl_addr = a, sl_closed = False, sl_close_calls = 0\<rparr>"
       and ctx = 1 and address = "IPAddress [0, 0, 0, 0]" and ip = "[0, 0, 0, 0]" and port = 443
       and st = "\<lparr>ProtocolSettings = WebSocketSettings \<lparr>Path = ''ws'', AcceptProxyProtocol = True\<rparr>,
                  SecuritySettings = Some \<lparr>GetTLSConfig = Some (TLSConfig ''site'')\<rparr>,
                  SocketSettings = 0\<rparr>"
       and ws = "\<lparr>Path = ''ws'', AcceptProxyProtocol = True\<rparr>"
       and sys = "\<lparr>sl_addr = \<lparr>IP = [0, 0, 0, 0], Port = 443, Zone = []\<rparr>,
                   sl_closed = False, sl_close_calls = 0\<rparr>"
       and ac = 0 and lg = "[]"]
  by (auto simp add: ConfigFromStreamSettings_def)

text \<open>
  Claim C8. The HTTP server that \<^verbatim>\<open>ListenWS\<close> builds has the request handler of this
  file as its handler, bound to the normalized path of the configuration, reads request
  headers for at most four seconds and accepts at most 2048 bytes of headers.
\<close>

theorem ListenWS_server_limits:
  assumes "Address_IP address = Some ip"
    and "ListenSystem \<lparr>IP = ip, Port = uint port, Zone = []\<rparr> (SocketSettings st) = Inr sys"
    and "ProtocolSettings st = WebSocketSettings ws"
  shows "\<exists>l. fst (ListenWS ListenSystem ctx address port st ac lg) = Listening l \<and>
           Handler (server l) = \<lparr>path = GetNormalizedPath ws, ln_addConn = ac\<rparr> \<and>
           ReadHeaderTimeout (server l) = 4 * Second \<and> Second = 1000000000 \<and>
           MaxHeaderBytes (server l) = 2048"
  using ListenWS_listening [where ListenSystem = ListenSystem and ctx = ctx and ac = ac and lg = lg, OF assms]
  by (simp add: Second_def)

theorem ListenWS_server_limits_witness:
  "\<exists>l. fst (ListenWS (\<lambda>a so. Inr \<lparr>sl_addr = a, sl_closed = False, sl_close_calls = 0\<rparr>)
               1 (IPAddress [127, 0, 0, 1]) 8080
               \<lparr>ProtocolSettings = WebSocketSettings \<lparr>Path = ''ws'', AcceptProxyProtocol = False\<rparr>,
                SecuritySettings = None, SocketSettings = 0\<rparr>
               5 []) = Listening l \<and>
        Handler (server l) = \<lparr>path = ''/ws'', ln_addConn = 5\<rparr> \<and>
        ReadHeaderTimeout (server l) = 4000000000 \<and>
        MaxHeaderBytes (server l) = 2048"
  using ListenWS_server_limits
    [where ListenSystem = "\<lambda>a so. Inr \<lparr>sl_addr = a, sl_closed = False, sl_close_calls = 0\<rparr>"
       and ctx = 1 and address = "IPAddress [127, 0, 0, 1]" and ip = "[127, 0, 0, 1]" and port = 8080
       and st = "\<lparr>ProtocolSettings = WebSocketSettings \<lparr>Path = ''ws'', AcceptProxyProtocol = False\<rparr>,
                  SecuritySettings = None, SocketSettings = 0\<rparr>"
       and ws = "\<lparr>Path = ''ws'', AcceptProxyProtocol = False\<rparr>"
       and sys = "\<lparr>sl_addr = \<lparr>IP = [127, 0, 0, 1], Port = 8080, Zone = []\<rparr>,
                   sl_closed = False, sl_close_calls = 0\<rparr>"
       and ac = 5 and lg = "[]"]
  by (auto simp add: GetNormalizedPath_def)

text \<open>
  Claim C4, as the code has it. \<^verbatim>\<open>Close\<close> has no guard of its own: every call makes one
  \<^verbatim>\<open>Close\<close> call on the composed listener, which reaches the system listener, and returns
  that call's result. So each call adds one close call on the system listener, the result
  is an error exactly when the system listener was closed already, and a second call always
  returns that error.
\<close>

theorem Close_delegates_every_call:
  "fst (Listener_Close ln) = fst (NetListener_Close (listener ln)) \<and>
   listener (snd (Listener_Close ln)) = snd (NetListener_Close (listener ln)) \<and>
   sl_close_calls (underlying (listener (snd (Listener_Close ln)))) =
     sl_close_calls (underlying (listener ln)) + 1 \<and>
   fst (Listener_Close ln) =
     (if sl_closed (underlying (listener ln)) then Some ''use of closed network connection''
      else None) \<and>
   fst (Listener_Close (snd (Listener_Close ln))) = Some ''use of closed network connection''"
  by (simp add: Listener_Close_fst Listener_Close_snd NetListener_Close_underlying
      NetListener_Close_result)

text \<open>
  Claim C4, as stated, fails: on a listener over an open system listener the first
  \<^verbatim>\<open>Close\<close> succeeds, the second returns an error, and the system listener has received
  two close calls.
\<close>

theorem Close_twice_counterexample:
  "fst (Listener_Close (\<lparr>server = \<lparr>Handler = \<lparr>path = ''/ws'', ln_addConn = 0\<rparr>,
                ReadHeaderTimeout = 4000000000, MaxHeaderBytes = 2048\<rparr>,
      listener = SystemListener \<lparr>sl_addr = \<lparr>IP = [127, 0, 0, 1], Port = 8080, Zone = []\<rparr>,
                                 sl_closed = False, sl_close_calls = 0\<rparr>,
      config = \<lparr>Path = ''/ws'', AcceptProxyProtocol = False\<rparr>, addConn = 0\<rparr>)) = None \<and>
   fst (Listener_Close (snd (Listener_Close (\<lparr>server = \<lparr>Handler = \<lparr>path = ''/ws'', ln_addConn = 0\<rparr>,
                ReadHeaderTimeout = 4000000000, MaxHeaderBytes = 2048\<rparr>,
      listener = SystemListener \<lparr>sl_addr = \<lparr>IP = [127, 0, 0, 1], Port = 8080, Zone = []\<rparr>,
                                 sl_closed = False, sl_close_calls = 0\<rparr>,
      config = \<lparr>Path = ''/ws'', AcceptProxyProtocol = False\<rparr>, addConn = 0\<rparr>)))) \<noteq> None \<and>
   sl_close_calls (underlying (listener (snd (Listener_Close (snd (Listener_Close (\<lparr>server = \<lparr>Handler = \<lparr>path = ''/ws'', ln_addConn = 0\<rparr>,
                ReadHeaderTimeout = 4000000000, MaxHeaderBytes = 2048\<rparr>,
      listener = SystemListener \<lparr>sl_addr = \<lparr>IP = [127, 0, 0, 1], Port = 8080, Zone = []\<rparr>,
                                 sl_closed = False, sl_close_calls = 0\<rparr>,
      config = \<lparr>Path = ''/ws'', AcceptProxyProtocol = False\<rparr>, addConn = 0\<rparr>))))))) = 2"
  by (simp add: Listener_Close_def)

end
